theory Spec2Isabelle
  imports Complex_Main
begin

section \<open>Claim enumerations (types/index.ts)\<close>

text \<open>
  The two string enums of the front end. \<open>ClaimStatus_value\<close> and \<open>ClaimType_value\<close> give
  the string each member stands for at run time; \<open>ClaimType_values\<close> is
  \<^verbatim>\<open>Object.values(ClaimType)\<close>, the list a \<^verbatim>\<open>z.nativeEnum(ClaimType)\<close> schema checks
  membership in.
\<close>

datatype ClaimStatus =
    RECEIVED | OCR_PROCESSING | PII_MASKED | DQ_VALIDATED | HUMAN_REVIEW
  | CONSENT_VERIFIED | CLAIM_VALIDATED | PAYER_SUBMITTED | SETTLED | REJECTED

datatype ClaimType = MEDICAL | DENTAL | VISION | PHARMACY

fun ClaimStatus_value :: "ClaimStatus \<Rightarrow> string" where
  "ClaimStatus_value RECEIVED = ''RECEIVED''"
| "ClaimStatus_value OCR_PROCESSING = ''OCR_PROCESSING''"
| "ClaimStatus_value PII_MASKED = ''PII_MASKED''"
| "ClaimStatus_value DQ_VALIDATED = ''DQ_VALIDATED''"
| "ClaimStatus_value HUMAN_REVIEW = ''HUMAN_REVIEW''"
| "ClaimStatus_value CONSENT_VERIFIED = ''CONSENT_VERIFIED''"
| "ClaimStatus_value CLAIM_VALIDATED = ''CLAIM_VALIDATED''"
| "ClaimStatus_value PAYER_SUBMITTED = ''PAYER_SUBMITTED''"
| "ClaimStatus_value SETTLED = ''SETTLED''"
| "ClaimStatus_value REJECTED = ''REJECTED''"

fun ClaimType_value :: "ClaimType \<Rightarrow> string" where
  "ClaimType_value MEDICAL = ''MEDICAL''"
| "ClaimType_value DENTAL = ''DENTAL''"
| "ClaimType_value VISION = ''VISION''"
| "ClaimType_value PHARMACY = ''PHARMACY''"

definition ClaimType_values :: "string list" where
  "ClaimType_values = map ClaimType_value [MEDICAL, DENTAL, VISION, PHARMACY]"

section \<open>JavaScript values and validation issues\<close>

text \<open>
  A schema receives an arbitrary JavaScript value. Numbers are modelled by the decimal
  value they denote (a rational), with \<open>NaN\<close> and the two infinities apart; \<open>JOther\<close>
  stands for every value of another type (object, function, symbol, bigint). An object is
  read through its properties: a property that is absent reads as \<open>JUndefined\<close>, which
  is also what the validation library sees for it.

  A schema returns the list of issues it raises, in the order the checks run; the input is
  accepted exactly when the list is empty. \<open>InvalidType\<close>, \<open>InvalidEnumValue\<close> and
  \<open>TooSmall\<close> are the library's issues where the schema gives no message of its own;
  \<open>Message m\<close> is an issue carrying the message written in the schema.
\<close>

datatype jsval =
    JUndefined | JNull | JBool bool | JNum rat | JNaN | JInfinity | JNegInfinity
  | JStr string | JArr "jsval list" | JOther

type_synonym jsobj = "string \<Rightarrow> jsval"

definition emptyObject :: jsobj where
  "emptyObject = (\<lambda>key. JUndefined)"

datatype issue = InvalidType | InvalidEnumValue | TooSmall | Message string

section \<open>Field schemas of claimValidationSchema (validation schemas)\<close>

text \<open>
  The regular expressions of the schemas. \<^verbatim>\<open>/^CLM[A-Z0-9]{6,}$/\<close> matches a string made
  of \<open>CLM\<close> and then six or more characters of \<open>A-Z\<close>, \<open>0-9\<close>, up to the end of the string.
  \<^verbatim>\<open>/^[a-zA-Z\s\-'\.]+$/\<close> matches a non-empty string of letters, white space, hyphen,
  apostrophe and full stop.
\<close>

definition upperAlnum :: string where
  "upperAlnum = ''ABCDEFGHIJKLMNOPQRSTUVWXYZ0123456789''"

definition claimNumberRegex :: "string \<Rightarrow> bool" where
  "claimNumberRegex s =
     (take 3 s = ''CLM'' \<and> 6 \<le> length (drop 3 s) \<and> list_all (\<lambda>c. c \<in> set upperAlnum) (drop 3 s))"

definition whitespace :: string where
  "whitespace = [CHR 0x09, CHR 0x0A, CHR 0x0B, CHR 0x0C, CHR 0x0D, CHR 0x20, CHR 0xA0]"

definition patientNameChars :: string where
  "patientNameChars =
     ''abcdefghijklmnopqrstuvwxyzABCDEFGHIJKLMNOPQRSTUVWXYZ'' @ whitespace @ [CHR ''-'', CHR 0x27, CHR ''.'']"

definition patientNameRegex :: "string \<Rightarrow> bool" where
  "patientNameRegex s = (s \<noteq> [] \<and> list_all (\<lambda>c. c \<in> set patientNameChars) s)"

text \<open>
  A string schema first checks the type (any other value raises \<open>InvalidType\<close> and no
  further check runs), then runs its length and pattern checks in the order they are
  chained; a failed check does not stop the later ones.
\<close>

fun claim_number_schema :: "jsval \<Rightarrow> issue list" where
  "claim_number_schema (JStr s) =
     (if length s < 1 then [Message ''Claim number is required''] else []) @
     (if claimNumberRegex s then []
      else [Message ''Claim number must start with CLM followed by 6+ alphanumeric characters''])"
| "claim_number_schema v = [InvalidType]"

fun policy_number_schema :: "jsval \<Rightarrow> issue list" where
  "policy_number_schema (JStr s) =
     (if length s < 1 then [Message ''Policy number is required''] else []) @
     (if length s < 5 then [Message ''Policy number must be at least 5 characters''] else []) @
     (if 50 < length s then [Message ''Policy number is too long''] else [])"
| "policy_number_schema v = [InvalidType]"

fun patient_name_schema :: "jsval \<Rightarrow> issue list" where
  "patient_name_schema (JStr s) =
     (if length s < 1 then [Message ''Patient name is required''] else []) @
     (if length s < 2 then [Message ''Patient name must be at least 2 characters''] else []) @
     (if 100 < length s then [Message ''Patient name is too long''] else []) @
     (if patientNameRegex s then [] else [Message ''Patient name contains invalid characters''])"
| "patient_name_schema v = [InvalidType]"

text \<open>
  \<open>date_of_service\<close> has two refinements after \<^verbatim>\<open>min(1)\<close>:
  \<^verbatim>\<open>!isNaN(new Date(date).getTime())\<close> and \<^verbatim>\<open>new Date(date) <= new Date()\<close>.
  Date parsing belongs to the JavaScript runtime and is a parameter here: \<open>parse date\<close> is
  the time value in milliseconds, \<open>None\<close> for an invalid date (\<open>NaN\<close>); \<open>now\<close> is the clock
  reading taken by the second refinement. A comparison with \<open>NaN\<close> is false.
\<close>

fun date_of_service_schema :: "(string \<Rightarrow> int option) \<Rightarrow> int \<Rightarrow> jsval \<Rightarrow> issue list" where
  "date_of_service_schema parse now (JStr date) =
     (if length date < 1 then [Message ''Date of service is required''] else []) @
     (if parse date \<noteq> None then [] else [Message ''Invalid date format'']) @
     (if (case parse date of None \<Rightarrow> False | Some parsedDate \<Rightarrow> parsedDate \<le> now) then []
      else [Message ''Date of service cannot be in the future''])"
| "date_of_service_schema parse now v = [InvalidType]"

text \<open>
  \<open>claim_amount\<close>: \<^verbatim>\<open>z.number(...).positive().min(0.01).max(1000000)\<close> and the refinement
  \<^verbatim>\<open>Number(amount.toFixed(2)) === amount\<close>. \<open>toFixed2\<close> is the value of the string
  \<^verbatim>\<open>x.toFixed(2)\<close>: the magnitude rounded to the nearest hundredth, the larger one
  on a tie, with the sign put back. \<open>undefined\<close> raises the schema's required message,
  every other non-number (and \<open>NaN\<close>) its type message. An infinity prints as itself and
  so passes the refinement; it is stopped by the bounds.
\<close>

definition toFixed2 :: "rat \<Rightarrow> rat" where
  "toFixed2 x = (if x < 0 then - (of_int \<lfloor>- x * 100 + 1 / 2\<rfloor> / 100)
                 else of_int \<lfloor>x * 100 + 1 / 2\<rfloor> / 100)"

fun claim_amount_schema :: "jsval \<Rightarrow> issue list" where
  "claim_amount_schema (JNum amount) =
     (if 0 < amount then [] else [Message ''Claim amount must be positive'']) @
     (if 1 / 100 \<le> amount then [] else [Message ''Claim amount must be at least $0.01'']) @
     (if amount \<le> 1000000 then [] else [Message ''Claim amount cannot exceed $1,000,000'']) @
     (if toFixed2 amount = amount then []
      else [Message ''Claim amount can have at most 2 decimal places''])"
| "claim_amount_schema JInfinity = [Message ''Claim amount cannot exceed $1,000,000'']"
| "claim_amount_schema JNegInfinity =
     [Message ''Claim amount must be positive'', Message ''Claim amount must be at least $0.01'']"
| "claim_amount_schema JUndefined = [Message ''Claim amount is required'']"
| "claim_amount_schema v = [Message ''Claim amount must be a number'']"

text \<open>
  \<open>claim_type\<close> is a native enum over \<open>ClaimType\<close> whose error map replaces every
  message. \<open>optional\<close> is \<^verbatim>\<open>.optional()\<close>: \<open>undefined\<close> is accepted, any other value goes
  to the inner schema. An array schema checks the type, then the length bound, then each
  element; the issues of the elements are reported under the name of the field.
\<close>

fun claim_type_schema :: "jsval \<Rightarrow> issue list" where
  "claim_type_schema (JStr s) =
     (if s \<in> set ClaimType_values then [] else [Message ''Please select a valid claim type''])"
| "claim_type_schema v = [Message ''Please select a valid claim type'']"

definition optional :: "(jsval \<Rightarrow> issue list) \<Rightarrow> jsval \<Rightarrow> issue list" where
  "optional schema v = (case v of JUndefined \<Rightarrow> [] | _ \<Rightarrow> schema v)"

fun provider_name_string :: "jsval \<Rightarrow> issue list" where
  "provider_name_string (JStr s) =
     (if 200 < length s then [Message ''Provider name is too long''] else [])"
| "provider_name_string v = [InvalidType]"

fun code_schema :: "jsval \<Rightarrow> issue list" where
  "code_schema (JStr s) = (if length s < 1 then [TooSmall] else [])"
| "code_schema v = [InvalidType]"

fun codes_array :: "string \<Rightarrow> jsval \<Rightarrow> issue list" where
  "codes_array tooMany (JArr items) =
     (if 10 < length items then [Message tooMany] else []) @ concat (map code_schema items)"
| "codes_array tooMany v = [InvalidType]"

section \<open>claimValidationSchema, createClaimSchema and updateClaimSchema\<close>

text \<open>
  The object schema runs the field schemas in the order of their declaration and collects
  their issues, each under the name of its field. \<open>createClaimSchema\<close> is the same schema.
\<close>

definition atPath :: "string \<Rightarrow> issue list \<Rightarrow> (string \<times> issue) list" where
  "atPath path issues = map (Pair path) issues"

definition claimValidationSchema ::
  "(string \<Rightarrow> int option) \<Rightarrow> int \<Rightarrow> jsobj \<Rightarrow> (string \<times> issue) list" where
  "claimValidationSchema parse now input =
     atPath ''claim_number'' (claim_number_schema (input ''claim_number'')) @
     atPath ''policy_number'' (policy_number_schema (input ''policy_number'')) @
     atPath ''patient_name'' (patient_name_schema (input ''patient_name'')) @
     atPath ''date_of_service'' (date_of_service_schema parse now (input ''date_of_service'')) @
     atPath ''claim_amount'' (claim_amount_schema (input ''claim_amount'')) @
     atPath ''claim_type'' (claim_type_schema (input ''claim_type'')) @
     atPath ''provider_name'' (optional provider_name_string (input ''provider_name'')) @
     atPath ''diagnosis_codes''
       (optional (codes_array ''Too many diagnosis codes (max 10)'') (input ''diagnosis_codes'')) @
     atPath ''procedure_codes''
       (optional (codes_array ''Too many procedure codes (max 10)'') (input ''procedure_codes''))"

definition createClaimSchema ::
  "(string \<Rightarrow> int option) \<Rightarrow> int \<Rightarrow> jsobj \<Rightarrow> (string \<times> issue) list" where
  "createClaimSchema = claimValidationSchema"

text \<open>
  \<^verbatim>\<open>updateClaimSchema = claimValidationSchema.partial().extend({ id: z.string().uuid(...) })\<close>:
  every field of the base schema becomes optional and a required \<open>id\<close> is added. The
  library's UUID pattern is a parameter, \<open>isUuid\<close>.
\<close>

fun id_schema :: "(string \<Rightarrow> bool) \<Rightarrow> jsval \<Rightarrow> issue list" where
  "id_schema isUuid (JStr s) = (if isUuid s then [] else [Message ''Invalid claim ID''])"
| "id_schema isUuid v = [InvalidType]"

definition updateClaimSchema ::
  "(string \<Rightarrow> bool) \<Rightarrow> (string \<Rightarrow> int option) \<Rightarrow> int \<Rightarrow> jsobj \<Rightarrow> (string \<times> issue) list" where
  "updateClaimSchema isUuid parse now input =
     atPath ''claim_number'' (optional claim_number_schema (input ''claim_number'')) @
     atPath ''policy_number'' (optional policy_number_schema (input ''policy_number'')) @
     atPath ''patient_name'' (optional patient_name_schema (input ''patient_name'')) @
     atPath ''date_of_service'' (optional (date_of_service_schema parse now) (input ''date_of_service'')) @
     atPath ''claim_amount'' (optional claim_amount_schema (input ''claim_amount'')) @
     atPath ''claim_type'' (optional claim_type_schema (input ''claim_type'')) @
     atPath ''provider_name'' (optional (optional provider_name_string) (input ''provider_name'')) @
     atPath ''diagnosis_codes''
       (optional (optional (codes_array ''Too many diagnosis codes (max 10)'')) (input ''diagnosis_codes'')) @
     atPath ''procedure_codes''
       (optional (optional (codes_array ''Too many procedure codes (max 10)'')) (input ''procedure_codes'')) @
     atPath ''id'' (id_schema isUuid (input ''id''))"

text \<open>
  \<^verbatim>\<open>ClaimsService.updateClaim(id, claimData)\<close> sends \<open>claimData\<close> as it is, as the body of a
  \<open>PATCH\<close> request to \<^verbatim>\<open>/api/v1/claims/${id}\<close>.
\<close>

record request =
  req_method :: string
  req_url :: string
  req_body :: jsobj

definition updateClaim :: "string \<Rightarrow> jsobj \<Rightarrow> request" where
  "updateClaim claimId claimData =
     \<lparr>req_method = ''PATCH'', req_url = ''/api/v1/claims/'' @ claimId, req_body = claimData\<rparr>"

section \<open>claimFiltersSchema\<close>

text \<open>
  The list filters. \<open>status\<close> and \<open>claim_type\<close> are both declared as
  \<^verbatim>\<open>z.nativeEnum(ClaimType).optional()\<close>. A native enum accepts a string or a number that
  is among the enum's values; a value of another type raises \<open>InvalidType\<close>.
  \<open>withDefault d\<close> is \<^verbatim>\<open>.default(d)\<close>: \<open>undefined\<close> is replaced by \<open>d\<close>.
\<close>

fun search_string :: "jsval \<Rightarrow> issue list" where
  "search_string (JStr s) = (if 100 < length s then [Message ''Search term is too long''] else [])"
| "search_string v = [InvalidType]"

fun nativeEnum_ClaimType :: "jsval \<Rightarrow> issue list" where
  "nativeEnum_ClaimType (JStr s) = (if s \<in> set ClaimType_values then [] else [InvalidEnumValue])"
| "nativeEnum_ClaimType (JNum n) = [InvalidEnumValue]"
| "nativeEnum_ClaimType JInfinity = [InvalidEnumValue]"
| "nativeEnum_ClaimType JNegInfinity = [InvalidEnumValue]"
| "nativeEnum_ClaimType v = [InvalidType]"

fun filter_date_string :: "(string \<Rightarrow> int option) \<Rightarrow> string \<Rightarrow> jsval \<Rightarrow> issue list" where
  "filter_date_string parse invalid (JStr date) =
     (if date = [] \<or> parse date \<noteq> None then [] else [Message invalid])"
| "filter_date_string parse invalid v = [InvalidType]"

fun skip_number :: "jsval \<Rightarrow> issue list" where
  "skip_number (JNum n) = (if 0 \<le> n then [] else [Message ''Skip cannot be negative''])"
| "skip_number JInfinity = []"
| "skip_number JNegInfinity = [Message ''Skip cannot be negative'']"
| "skip_number v = [InvalidType]"

fun limit_number :: "jsval \<Rightarrow> issue list" where
  "limit_number (JNum n) =
     (if 1 \<le> n then [] else [Message ''Limit must be at least 1'']) @
     (if n \<le> 100 then [] else [Message ''Limit cannot exceed 100''])"
| "limit_number JInfinity = [Message ''Limit cannot exceed 100'']"
| "limit_number JNegInfinity = [Message ''Limit must be at least 1'']"
| "limit_number v = [InvalidType]"

definition withDefault :: "jsval \<Rightarrow> (jsval \<Rightarrow> issue list) \<Rightarrow> jsval \<Rightarrow> issue list" where
  "withDefault d schema v = (case v of JUndefined \<Rightarrow> schema d | _ \<Rightarrow> schema v)"

text \<open>
  The refinement on the whole object:
  \<^verbatim>\<open>if (data.date_from && data.date_to) return new Date(data.date_from) <= new Date(data.date_to); return true;\<close>
\<close>

fun truthyString :: "jsval \<Rightarrow> bool" where
  "truthyString (JStr s) = (s \<noteq> [])"
| "truthyString v = False"

fun dateOf :: "(string \<Rightarrow> int option) \<Rightarrow> jsval \<Rightarrow> int option" where
  "dateOf parse (JStr s) = parse s"
| "dateOf parse v = None"

definition dateRangeRefine :: "(string \<Rightarrow> int option) \<Rightarrow> jsobj \<Rightarrow> bool" where
  "dateRangeRefine parse data =
     (if truthyString (data ''date_from'') \<and> truthyString (data ''date_to'') then
        (case (dateOf parse (data ''date_from''), dateOf parse (data ''date_to'')) of
           (Some dateFrom, Some dateTo) \<Rightarrow> dateFrom \<le> dateTo
         | _ \<Rightarrow> False)
      else True)"

text \<open>
  The object refinement runs only when no field aborted the parse; a field aborts on a
  type or enum issue, while a failed length check or field refinement only marks the
  result. Its issue is reported under \<open>date_to\<close>.
\<close>

definition aborts :: "issue \<Rightarrow> bool" where
  "aborts i = (i = InvalidType \<or> i = InvalidEnumValue)"

definition claimFiltersFields :: "(string \<Rightarrow> int option) \<Rightarrow> jsobj \<Rightarrow> (string \<times> issue) list" where
  "claimFiltersFields parse input =
     atPath ''search'' (optional search_string (input ''search'')) @
     atPath ''status'' (optional nativeEnum_ClaimType (input ''status'')) @
     atPath ''claim_type'' (optional nativeEnum_ClaimType (input ''claim_type'')) @
     atPath ''date_from'' (optional (filter_date_string parse ''Invalid from date'') (input ''date_from'')) @
     atPath ''date_to'' (optional (filter_date_string parse ''Invalid to date'') (input ''date_to'')) @
     atPath ''skip'' (withDefault (JNum 0) skip_number (input ''skip'')) @
     atPath ''limit'' (withDefault (JNum 20) limit_number (input ''limit''))"

definition claimFiltersSchema :: "(string \<Rightarrow> int option) \<Rightarrow> jsobj \<Rightarrow> (string \<times> issue) list" where
  "claimFiltersSchema parse input =
     claimFiltersFields parse input @
     (if list_ex (\<lambda>(path, i). aborts i) (claimFiltersFields parse input) then []
      else if dateRangeRefine parse input then []
      else [(''date_to'', Message ''From date must be before or equal to to date'')])"

section \<open>Utility functions (utils)\<close>

text \<open>
  Strings of numbers. \<open>digitsToString\<close> prints a non-negative integer in decimal and
  \<open>numberToString\<close> is \<^verbatim>\<open>Number.prototype.toString()\<close> on an integer of magnitude at most
  \<open>2 ^ 53\<close>, the range in which the conversion prints every digit of the number; every
  time value lies in it.
  \<open>sliceFromEnd n\<close> is \<^verbatim>\<open>slice(-n)\<close> (the whole string when it is shorter),
  \<open>substr start len\<close> is \<^verbatim>\<open>substr(start, len)\<close>, and \<open>toUpperCase\<close> maps \<open>a-z\<close> to \<open>A-Z\<close>.
\<close>

definition digits36 :: string where
  "digits36 = ''0123456789abcdefghijklmnopqrstuvwxyz''"

function digitsToString :: "int \<Rightarrow> string" where
  "digitsToString n =
     (if n < 10 then [digits36 ! nat n] else digitsToString (n div 10) @ [digits36 ! nat (n mod 10)])"
  by pat_completeness auto
termination
  by (relation "measure nat") auto

declare digitsToString.simps [simp del]

definition numberToString :: "int \<Rightarrow> string" where
  "numberToString n = (if n < 0 then CHR ''-'' # digitsToString (- n) else digitsToString n)"

definition sliceFromEnd :: "nat \<Rightarrow> string \<Rightarrow> string" where
  "sliceFromEnd n s = drop (length s - n) s"

definition substr :: "nat \<Rightarrow> nat \<Rightarrow> string \<Rightarrow> string" where
  "substr start len s = take len (drop start s)"

definition toUpperCaseChar :: "char \<Rightarrow> char" where
  "toUpperCaseChar c =
     (case map_of (zip ''abcdefghijklmnopqrstuvwxyz'' ''ABCDEFGHIJKLMNOPQRSTUVWXYZ'') c of
        Some u \<Rightarrow> u | None \<Rightarrow> c)"

definition toUpperCase :: "string \<Rightarrow> string" where
  "toUpperCase s = map toUpperCaseChar s"

text \<open>
  \<^verbatim>\<open>generateClaimNumber\<close> reads the clock and the random generator. \<open>dateNow\<close> is the value
  of \<^verbatim>\<open>Date.now()\<close>. \<^verbatim>\<open>Math.random().toString(36)\<close> is \<open>0\<close> when the number is zero and
  otherwise \<open>0.\<close> followed by digits in base 36; \<open>fraction\<close> is the list of those digits, so
  that every list stands for a possible outcome.
\<close>

definition randomToString36 :: "nat list \<Rightarrow> string" where
  "randomToString36 fraction =
     (if fraction = [] then ''0'' else ''0.'' @ map (\<lambda>d. digits36 ! (d mod 36)) fraction)"

definition generateClaimNumber :: "int \<Rightarrow> nat list \<Rightarrow> string" where
  "generateClaimNumber dateNow fraction =
     (let timestamp = sliceFromEnd 6 (numberToString dateNow);
          random = toUpperCase (substr 2 4 (randomToString36 fraction))
      in ''CLM'' @ timestamp @ random)"

definition isValidClaimNumber :: "string \<Rightarrow> bool" where
  "isValidClaimNumber claimNumber = claimNumberRegex claimNumber"

text \<open>
  \<^verbatim>\<open>getConfidenceColor\<close> compares its argument with the literals 0.8 and 0.6.
\<close>

definition getConfidenceColor :: "rat \<Rightarrow> string" where
  "getConfidenceColor confidence =
     (if confidence \<ge> 8 / 10 then ''text-green-600''
      else if confidence \<ge> 6 / 10 then ''text-yellow-600''
      else ''text-red-600'')"

text \<open>
  \<^verbatim>\<open>formatConfidence\<close> evaluates \<^verbatim>\<open>`${Math.round(confidence * 100)}%`\<close> on a number, which
  is a finite double (given by its exact value), \<open>NaN\<close> or an infinity.

  The product \<^verbatim>\<open>confidence * 100\<close> is an IEEE 754 multiplication. It belongs to the
  runtime and is a parameter here: \<open>times100 x\<close> is the product of the finite double \<open>x\<close>
  with 100, that is the double nearest to the exact product, or an infinity when it
  overflows. \<open>NaN\<close> and the infinities are their own products with 100.

  \<^verbatim>\<open>Math.round\<close> gives the nearest integer, the larger one on a tie, and leaves \<open>NaN\<close> and the
  infinities as they are. The conversion of the result to a string prints every digit of
  an integer of magnitude at most \<open>2 ^ 53\<close>; beyond it the runtime prints the shortest
  digits that identify the double, in exponent form from \<open>10 ^ 21\<close>, which is the
  parameter \<open>largeForm\<close>.
\<close>

datatype 'a ieee = Finite 'a | NaN | PosInfinity | NegInfinity

fun multiplyBy100 :: "(rat \<Rightarrow> rat ieee) \<Rightarrow> rat ieee \<Rightarrow> rat ieee" where
  "multiplyBy100 times100 (Finite x) = times100 x"
| "multiplyBy100 times100 NaN = NaN"
| "multiplyBy100 times100 PosInfinity = PosInfinity"
| "multiplyBy100 times100 NegInfinity = NegInfinity"

fun mathRound :: "rat ieee \<Rightarrow> int ieee" where
  "mathRound (Finite x) = Finite \<lfloor>x + 1 / 2\<rfloor>"
| "mathRound NaN = NaN"
| "mathRound PosInfinity = PosInfinity"
| "mathRound NegInfinity = NegInfinity"

fun integerToString :: "(int \<Rightarrow> string) \<Rightarrow> int ieee \<Rightarrow> string" where
  "integerToString largeForm (Finite n) =
     (if \<bar>n\<bar> \<le> 2 ^ 53 then numberToString n else largeForm n)"
| "integerToString largeForm NaN = ''NaN''"
| "integerToString largeForm PosInfinity = ''Infinity''"
| "integerToString largeForm NegInfinity = ''-Infinity''"

definition formatConfidence :: "(rat \<Rightarrow> rat ieee) \<Rightarrow> (int \<Rightarrow> string) \<Rightarrow> rat ieee \<Rightarrow> string" where
  "formatConfidence times100 largeForm confidence =
     integerToString largeForm (mathRound (multiplyBy100 times100 confidence)) @ ''%''"

section \<open>Request retry (services/api)\<close>

text \<open>
  \<^verbatim>\<open>retryRequest(requestFn, maxRetries = 3, delay = 1000)\<close> calls \<open>requestFn\<close> in the loop
  \<^verbatim>\<open>for (let attempt = 1; attempt <= maxRetries; attempt++)\<close>. A rejected call stores
  the error in \<open>lastError\<close>; an \<open>AxiosError\<close> whose response status is truthy and below 500
  is rethrown at once; otherwise, when \<open>attempt < maxRetries\<close>, the loop sleeps
  \<open>delay * 2 ^ (attempt - 1)\<close> milliseconds. After the loop \<open>lastError\<close> is thrown.

  The request function is stateful: \<open>requestFn k\<close> is the outcome of its invocation number
  \<open>k\<close>, counted from 0. An error is either an \<open>AxiosError\<close> with its optional
  \<open>response.status\<close>, or any other thrown value. The effects of the loop, invocations and
  sleeps, are recorded in a trace in the order they happen. The thrown value is an
  \<open>error option\<close>: \<open>None\<close> is \<open>lastError\<close> before any assignment (\<open>undefined\<close>).
\<close>

datatype error = AxiosError "int option" | OtherError

datatype 'a outcome = Resolved 'a | Rejected error

datatype effect = Invoke | Wait int

fun isClientError :: "error \<Rightarrow> bool" where
  "isClientError (AxiosError (Some status)) = (status \<noteq> 0 \<and> status < 500)"
| "isClientError (AxiosError None) = False"
| "isClientError OtherError = False"

definition invocations :: "effect list \<Rightarrow> nat" where
  "invocations tr = length (filter (\<lambda>e. e = Invoke) tr)"

function retryLoop ::
  "(nat \<Rightarrow> 'a outcome) \<Rightarrow> int \<Rightarrow> int \<Rightarrow> int \<Rightarrow> error option \<Rightarrow> effect list
    \<Rightarrow> (error option + 'a) \<times> effect list" where
  "retryLoop requestFn maxRetries delay attempt lastError tr =
     (if attempt \<le> maxRetries then
        (case requestFn (invocations tr) of
           Resolved v \<Rightarrow> (Inr v, tr @ [Invoke])
         | Rejected err \<Rightarrow>
             if isClientError err then (Inl (Some err), tr @ [Invoke])
             else if attempt < maxRetries then
               retryLoop requestFn maxRetries delay (attempt + 1) (Some err)
                 (tr @ [Invoke, Wait (delay * 2 ^ nat (attempt - 1))])
             else
               retryLoop requestFn maxRetries delay (attempt + 1) (Some err) (tr @ [Invoke]))
      else (Inl lastError, tr))"
  by pat_completeness auto
termination
  by (relation "measure (\<lambda>(requestFn, maxRetries, delay, attempt, lastError, tr).
        nat (maxRetries + 1 - attempt))") auto

declare retryLoop.simps [simp del]

definition retryRequest ::
  "(nat \<Rightarrow> 'a outcome) \<Rightarrow> int \<Rightarrow> int \<Rightarrow> (error option + 'a) \<times> effect list" where
  "retryRequest requestFn maxRetries delay = retryLoop requestFn maxRetries delay 1 None []"

fun waits :: "effect list \<Rightarrow> int list" where
  "waits [] = []"
| "waits (Invoke # tr) = waits tr"
| "waits (Wait d # tr) = d # waits tr"

section \<open>Claim Store\<close>

text \<open>
  Modelled from the spec: the Claim Store and the \<open>update(partial fields)\<close> operation of
  the Claim CRUD surface are not among the source files; only the service that sends the
  \<open>PATCH\<close> request and the declaration of \<open>ClaimUpdate\<close> are. The store enforces the
  data-level invariants of the data model: the identifier is immutable after creation and
  the claim number is immutable once set. The specification does not say whether an
  update that would change one of them is refused as a whole or applied without it, so
  the policy is a parameter.
\<close>

datatype enforcement = RefuseUpdate | KeepStored

definition immutableFields :: "string list" where
  "immutableFields = [''id'', ''claim_number'']"

definition changesImmutable :: "jsobj \<Rightarrow> jsobj \<Rightarrow> bool" where
  "changesImmutable stored partial =
     list_ex (\<lambda>key. partial key \<noteq> JUndefined \<and> partial key \<noteq> stored key) immutableFields"

text \<open>
  Modelled from the spec: a field edit writes each field that is present in the partial
  payload over the stored one, the immutable fields apart. A change of status is not a
  field edit: it goes through \<open>Advance\<close>, and the direct write leaves the status as stored.
  The bookkeeping of the store (the time of the last update, the version token) is left
  out.
\<close>

definition writeFields :: "jsobj \<Rightarrow> jsobj \<Rightarrow> jsobj" where
  "writeFields stored partial =
     (\<lambda>key. if key \<in> set immutableFields \<or> key = ''status'' then stored key
            else case partial key of JUndefined \<Rightarrow> stored key | v \<Rightarrow> v)"

text \<open>
  Modelled from the spec: the claim as stored after \<open>update(partial fields)\<close>.
\<close>

definition storeUpdate :: "enforcement \<Rightarrow> jsobj \<Rightarrow> jsobj \<Rightarrow> jsobj" where
  "storeUpdate policy stored partial =
     (case policy of
        RefuseUpdate \<Rightarrow> if changesImmutable stored partial then stored else writeFields stored partial
      | KeepStored \<Rightarrow> writeFields stored partial)"

section \<open>Lifecycle Engine\<close>

text \<open>
  Modelled from the spec: the Lifecycle Engine and the \<open>Advance\<close> operation of the
  Orchestrator are not among the source files; only the \<open>ClaimStatus\<close> enum and the
  callers of the service are. The events are those named by the transition rules of the
  specification: a document is attached; an extraction succeeds; the data-quality checks
  complete; the confidence routing of a claim that has entered \<open>DQ_VALIDATED\<close>; the
  reviewer's approval or rejection; the three external events of the edges
  \<open>CONSENT_VERIFIED \<rightarrow> CLAIM_VALIDATED \<rightarrow> PAYER_SUBMITTED \<rightarrow> SETTLED\<close>; the failure signal of
  an external validator; and the explicit rejection event. A claim carries its status, the
  overall confidence of its extraction and whether a mandatory-review rule fires for it.
\<close>

datatype event =
    DocumentAttached | ExtractionSucceeded | DataQualityPassed | ConfidenceRouting
  | ReviewerApproved | ReviewerRejected | ClaimValidationPassed | SubmittedToPayer
  | PayerSettled | ValidatorFailed | RejectionRequested

record lifecycle_claim =
  status :: ClaimStatus
  overall_confidence :: rat
  mandatory_review :: bool

datatype lifecycle_error = InvalidTransition ClaimStatus event

text \<open>
  Modelled from the spec: the review threshold is a configuration input with default 0.80;
  \<open>SETTLED\<close> and \<open>REJECTED\<close> are the terminal states; a claim requires review if and only
  if its overall confidence is below the threshold or a mandatory-review rule fires.
  \<open>edge source target\<close> is a transition defined from the state \<open>source\<close> only.
\<close>

definition default_review_threshold :: rat where
  "default_review_threshold = 80 / 100"

definition terminal :: "ClaimStatus \<Rightarrow> bool" where
  "terminal s = (s = SETTLED \<or> s = REJECTED)"

definition requiresReview :: "rat \<Rightarrow> lifecycle_claim \<Rightarrow> bool" where
  "requiresReview review_threshold claim =
     (overall_confidence claim < review_threshold \<or> mandatory_review claim)"

definition edge :: "ClaimStatus \<Rightarrow> ClaimStatus \<Rightarrow> ClaimStatus \<Rightarrow> ClaimStatus option" where
  "edge source target current = (if current = source then Some target else None)"

text \<open>
  Modelled from the spec: the transition rules. A terminal state accepts no transition;
  any other state goes to \<open>REJECTED\<close> on an explicit rejection event; each remaining
  event is valid from the one state its edge leaves, and the validator's failure signal
  from the three stages after consent.
\<close>

fun nextStatus :: "rat \<Rightarrow> lifecycle_claim \<Rightarrow> event \<Rightarrow> ClaimStatus option" where
  "nextStatus review_threshold claim ev =
     (if terminal (status claim) then None
      else case ev of
        RejectionRequested \<Rightarrow> Some REJECTED
      | DocumentAttached \<Rightarrow> edge RECEIVED OCR_PROCESSING (status claim)
      | ExtractionSucceeded \<Rightarrow> edge OCR_PROCESSING PII_MASKED (status claim)
      | DataQualityPassed \<Rightarrow> edge PII_MASKED DQ_VALIDATED (status claim)
      | ConfidenceRouting \<Rightarrow>
          edge DQ_VALIDATED
            (if requiresReview review_threshold claim then HUMAN_REVIEW else CONSENT_VERIFIED)
            (status claim)
      | ReviewerApproved \<Rightarrow> edge HUMAN_REVIEW CONSENT_VERIFIED (status claim)
      | ReviewerRejected \<Rightarrow> edge HUMAN_REVIEW REJECTED (status claim)
      | ClaimValidationPassed \<Rightarrow> edge CONSENT_VERIFIED CLAIM_VALIDATED (status claim)
      | SubmittedToPayer \<Rightarrow> edge CLAIM_VALIDATED PAYER_SUBMITTED (status claim)
      | PayerSettled \<Rightarrow> edge PAYER_SUBMITTED SETTLED (status claim)
      | ValidatorFailed \<Rightarrow>
          (if status claim \<in> {CONSENT_VERIFIED, CLAIM_VALIDATED, PAYER_SUBMITTED}
           then Some REJECTED else None))"

text \<open>
  Modelled from the spec: \<open>Advance\<close> asks the engine whether the event is valid from the
  current state and persists the new state only if it is; otherwise it returns
  \<open>InvalidTransition\<close> with the current state and the attempted event. The result is
  paired with the claim as stored afterwards.
\<close>

definition Advance ::
  "rat \<Rightarrow> lifecycle_claim \<Rightarrow> event \<Rightarrow> (lifecycle_error + lifecycle_claim) \<times> lifecycle_claim" where
  "Advance review_threshold claim ev =
     (case nextStatus review_threshold claim ev of
        None \<Rightarrow> (Inl (InvalidTransition (status claim) ev), claim)
      | Some s \<Rightarrow> (Inr (claim\<lparr>status := s\<rparr>), claim\<lparr>status := s\<rparr>))"

section \<open>Properties of the validation schemas\<close>

lemma optional_simps [simp]:
  "optional schema JUndefined = []"
  "v \<noteq> JUndefined \<Longrightarrow> optional schema v = schema v"
  by (cases v; simp add: optional_def)+

lemma atPath_Nil_iff [simp]: "atPath path issues = [] \<longleftrightarrow> issues = []"
  by (simp add: atPath_def)

lemma floor_add_half: "\<lfloor>rat_of_int n + 1 / 2\<rfloor> = n"
  by (rule floor_unique) simp_all

lemma toFixed2_fixed_iff: "toFixed2 a = a \<longleftrightarrow> (\<exists>n::int. a = of_int n / 100)"
proof
  assume fx: "toFixed2 a = a"
  show "\<exists>n::int. a = of_int n / 100"
  proof (cases "a < 0")
    case True
    with fx have "a = of_int (- \<lfloor>- a * 100 + 1 / 2\<rfloor>) / 100"
      by (simp add: toFixed2_def)
    then show ?thesis by blast
  next
    case False
    with fx have "a = of_int \<lfloor>a * 100 + 1 / 2\<rfloor> / 100"
      by (simp add: toFixed2_def)
    then show ?thesis by blast
  qed
next
  assume "\<exists>n::int. a = of_int n / 100"
  then obtain n :: int where a: "a = of_int n / 100" by blast
  have pos: "\<lfloor>a * 100 + 1 / 2\<rfloor> = n"
    using floor_add_half [of n] by (simp add: a)
  have "- a * 100 = rat_of_int (- n)" by (simp add: a)
  then have neg: "\<lfloor>- a * 100 + 1 / 2\<rfloor> = - n"
    using floor_add_half [of "- n"] by simp
  show "toFixed2 a = a"
    unfolding toFixed2_def using pos neg by (simp add: a)
qed

lemma hundredths_positive: 
  assumes "0 < a" and "a = rat_of_int n / 100"
  shows "1 / 100 \<le> a"
proof -
  from assms have "0 < rat_of_int n" by simp
  then have "1 \<le> n" by simp
  then have "1 \<le> rat_of_int n" by simp
  then show ?thesis using assms(2) by simp
qed

lemma claim_amount_schema_accepts:
  "claim_amount_schema v = [] \<longleftrightarrow>
     (\<exists>a. v = JNum a \<and> 0 < a \<and> a \<le> 1000000 \<and> (\<exists>n::int. a = of_int n / 100))"
proof (cases v)
  case (JNum a)
  show ?thesis
    using hundredths_positive [of a] by (auto simp: JNum toFixed2_fixed_iff)
qed simp_all

lemma claimValidationSchema_Nil_iff:
  "claimValidationSchema parse now input = [] \<longleftrightarrow>
     claim_number_schema (input ''claim_number'') = [] \<and>
     policy_number_schema (input ''policy_number'') = [] \<and>
     patient_name_schema (input ''patient_name'') = [] \<and>
     date_of_service_schema parse now (input ''date_of_service'') = [] \<and>
     claim_amount_schema (input ''claim_amount'') = [] \<and>
     claim_type_schema (input ''claim_type'') = [] \<and>
     optional provider_name_string (input ''provider_name'') = [] \<and>
     optional (codes_array ''Too many diagnosis codes (max 10)'') (input ''diagnosis_codes'') = [] \<and>
     optional (codes_array ''Too many procedure codes (max 10)'') (input ''procedure_codes'') = []"
  by (simp add: claimValidationSchema_def)

text \<open>
  C3 (amended). With the other fields valid (the same input with amount 1 is accepted),
  the claim-creation schema accepts an input if and only if its \<open>claim_amount\<close> is a number
  that is positive, at most 1,000,000 and a whole number of hundredths. The upper bound
  comes from \<^verbatim>\<open>.max(1000000)\<close>: a positive amount with two decimals above it is rejected.
\<close>

theorem createClaimSchema_claim_amount:
  assumes "createClaimSchema parse now (input(''claim_amount'' := JNum 1)) = []"
  shows "createClaimSchema parse now input = [] \<longleftrightarrow>
     (\<exists>a. input ''claim_amount'' = JNum a \<and> 0 < a \<and> a \<le> 1000000 \<and> (\<exists>n::int. a = of_int n / 100))"
proof -
  have "claim_amount_schema (JNum 1) = []"
    by code_simp
  with assms show ?thesis
    by (simp add: createClaimSchema_def claimValidationSchema_Nil_iff claim_amount_schema_accepts)
qed

theorem createClaimSchema_claim_amount_witness:
  "createClaimSchema [''2024-01-15'' \<mapsto> 1705276800000] 1762041600000
     (emptyObject(''claim_number'' := JStr ''CLM123456'', ''policy_number'' := JStr ''POL-12345'',
        ''patient_name'' := JStr ''Jane Doe'', ''date_of_service'' := JStr ''2024-01-15'',
        ''claim_amount'' := JNum (1999 / 100), ''claim_type'' := JStr ''MEDICAL'')) = []"
proof -
  let ?parse = "[''2024-01-15'' \<mapsto> 1705276800000::int]"
  let ?input = "emptyObject(''claim_number'' := JStr ''CLM123456'', ''policy_number'' := JStr ''POL-12345'',
        ''patient_name'' := JStr ''Jane Doe'', ''date_of_service'' := JStr ''2024-01-15'',
        ''claim_amount'' := JNum (1999 / 100), ''claim_type'' := JStr ''MEDICAL'')"
  have others: "createClaimSchema ?parse 1762041600000 (?input(''claim_amount'' := JNum 1)) = []"
    by code_simp
  have "\<exists>n::int. (1999 / 100 :: rat) = of_int n / 100"
    by (rule exI [of _ 1999]) simp
  then have amount: "\<exists>a. ?input ''claim_amount'' = JNum a \<and> 0 < a \<and> a \<le> 1000000 \<and> (\<exists>n::int. a = of_int n / 100)"
    by (intro exI [of _ "1999 / 100"]) simp
  show ?thesis
    using createClaimSchema_claim_amount [OF others] amount by blast
qed

theorem createClaimSchema_claim_amount_counterexample:
  "(0::rat) < 2000000 \<and> (2000000::rat) = of_int 200000000 / 100
   \<and> createClaimSchema [''2024-01-15'' \<mapsto> 1705276800000] 1762041600000
     (emptyObject(''claim_number'' := JStr ''CLM123456'', ''policy_number'' := JStr ''POL-12345'',
        ''patient_name'' := JStr ''Jane Doe'', ''date_of_service'' := JStr ''2024-01-15'',
        ''claim_amount'' := JNum 2000000, ''claim_type'' := JStr ''MEDICAL''))
     = [(''claim_amount'', Message ''Claim amount cannot exceed $1,000,000'')]"
  by code_simp

text \<open>
  C10. When \<open>date_of_service\<close> parses to an instant later than the clock reading, the
  claim-creation schema rejects the input with the issue
  \<open>Date of service cannot be in the future\<close>. When it parses to an instant at or before the
  clock reading, both date refinements pass, and the field raises no issue at all unless
  the string is empty (which a parseable date never is).
\<close>

theorem createClaimSchema_date_of_service:
  assumes "input ''date_of_service'' = JStr date" and "parse date = Some parsedDate"
  shows "(now < parsedDate \<longrightarrow>
            createClaimSchema parse now input \<noteq> [] \<and>
            (''date_of_service'', Message ''Date of service cannot be in the future'')
              \<in> set (createClaimSchema parse now input))
       \<and> (parsedDate \<le> now \<longrightarrow>
            date_of_service_schema parse now (input ''date_of_service'') =
              (if date = [] then [Message ''Date of service is required''] else []))"
proof -
  have future: "(''date_of_service'', Message ''Date of service cannot be in the future'')
      \<in> set (createClaimSchema parse now input)" if "now < parsedDate"
    using that assms by (simp add: createClaimSchema_def claimValidationSchema_def atPath_def)
  then have "createClaimSchema parse now input \<noteq> []" if "now < parsedDate"
    using that by fastforce
  with future show ?thesis using assms by simp
qed

theorem createClaimSchema_date_of_service_witness:
  "(''date_of_service'', Message ''Date of service cannot be in the future'')
     \<in> set (createClaimSchema [''2031-05-01'' \<mapsto> 1935360000000] 1762041600000
             (emptyObject(''date_of_service'' := JStr ''2031-05-01'')))
   \<and> date_of_service_schema [''2024-01-15'' \<mapsto> 1705276800000] 1762041600000
        ((emptyObject(''date_of_service'' := JStr ''2024-01-15'')) ''date_of_service'') = []"
  using createClaimSchema_date_of_service
      [of "emptyObject(''date_of_service'' := JStr ''2031-05-01'')" "''2031-05-01''"
          "[''2031-05-01'' \<mapsto> 1935360000000]" 1935360000000 1762041600000]
    createClaimSchema_date_of_service
      [of "emptyObject(''date_of_service'' := JStr ''2024-01-15'')" "''2024-01-15''"
          "[''2024-01-15'' \<mapsto> 1705276800000]" 1705276800000 1762041600000]
  by simp

lemma nativeEnum_ClaimType_Nil_iff:
  "nativeEnum_ClaimType v = [] \<longleftrightarrow>
     v \<in> {JStr ''MEDICAL'', JStr ''DENTAL'', JStr ''VISION'', JStr ''PHARMACY''}"
  by (cases v) (auto simp: ClaimType_values_def)

lemma nativeEnum_ClaimType_rejects_status:
  "nativeEnum_ClaimType (JStr (ClaimStatus_value st)) \<noteq> []"
  by (cases st) (simp_all add: ClaimType_values_def)

lemma claimFiltersSchema_Nil_iff:
  "claimFiltersSchema parse input = [] \<longleftrightarrow>
     claimFiltersFields parse input = [] \<and> dateRangeRefine parse input"
  by (auto simp: claimFiltersSchema_def)

lemma claimFiltersFields_status:
  "claimFiltersFields parse (input(''status'' := v)) = [] \<longleftrightarrow>
     claimFiltersFields parse (input(''status'' := JUndefined)) = [] \<and> optional nativeEnum_ClaimType v = []"
  by (auto simp: claimFiltersFields_def)

lemma dateRangeRefine_status:
  "dateRangeRefine parse (input(''status'' := v)) = dateRangeRefine parse input"
  by (simp add: dateRangeRefine_def)

text \<open>
  C8. With the other filters absent or valid (the same filters without \<open>status\<close> are
  accepted), a \<open>status\<close> filter that is present is accepted if and only if it is one of the
  strings \<open>MEDICAL\<close>, \<open>DENTAL\<close>, \<open>VISION\<close>, \<open>PHARMACY\<close>: the field is checked against
  \<open>ClaimType\<close>. Every value of \<open>ClaimStatus\<close> is rejected as a status filter.
\<close>

theorem claimFiltersSchema_status_is_ClaimType:
  assumes "claimFiltersSchema parse (input(''status'' := JUndefined)) = []" and "v \<noteq> JUndefined"
  shows "(claimFiltersSchema parse (input(''status'' := v)) = [] \<longleftrightarrow>
            v \<in> {JStr ''MEDICAL'', JStr ''DENTAL'', JStr ''VISION'', JStr ''PHARMACY''})
       \<and> claimFiltersSchema parse (input(''status'' := JStr (ClaimStatus_value st))) \<noteq> []"
proof -
  from assms(1) have rest: "claimFiltersFields parse (input(''status'' := JUndefined)) = []"
    and range: "dateRangeRefine parse input"
    by (simp_all add: claimFiltersSchema_Nil_iff dateRangeRefine_status)
  have "claimFiltersSchema parse (input(''status'' := w)) = [] \<longleftrightarrow> optional nativeEnum_ClaimType w = []" for w
    using rest range claimFiltersFields_status [of parse input w]
    by (simp add: claimFiltersSchema_Nil_iff dateRangeRefine_status)
  then show ?thesis
    using assms(2) nativeEnum_ClaimType_rejects_status [of st]
    by (simp add: nativeEnum_ClaimType_Nil_iff)
qed

theorem claimFiltersSchema_status_is_ClaimType_witness:
  "claimFiltersSchema Map.empty (emptyObject(''status'' := JStr ''DENTAL'')) = []
   \<and> claimFiltersSchema Map.empty (emptyObject(''status'' := JStr ''SETTLED'')) \<noteq> []"
proof -
  have rest: "claimFiltersSchema Map.empty (emptyObject(''status'' := JUndefined)) = []"
    by code_simp
  have v: "JStr ''DENTAL'' \<noteq> JUndefined" by simp
  show ?thesis
    using claimFiltersSchema_status_is_ClaimType [OF rest v, of SETTLED] by simp
qed

lemma writeFields_claim_number: "writeFields stored partial ''claim_number'' = stored ''claim_number''"
  by (simp add: writeFields_def immutableFields_def)

lemma storeUpdate_claim_number: "storeUpdate policy stored partial ''claim_number'' = stored ''claim_number''"
  by (cases policy) (simp_all add: storeUpdate_def writeFields_claim_number)

lemma writeFields_present:
  assumes "key \<notin> set immutableFields" and "key \<noteq> ''status''" and "partial key \<noteq> JUndefined"
  shows "writeFields stored partial key = partial key"
  using assms by (cases "partial key") (simp_all add: writeFields_def)

text \<open>
  C4. The claim number is immutable once set: for every update payload validated by the
  update schema and sent by \<open>updateClaim\<close>, whatever \<open>claim_number\<close> it carries and whichever
  way the store enforces the invariant, the \<open>claim_number\<close> of the stored claim after the
  update equals its value before the update. The update is not an empty one: unless it is
  refused for an immutable field, every other field edit present in the payload is
  written.
\<close>

theorem update_keeps_claim_number:
  assumes "updateClaimSchema isUuid parse now payload = []"
  shows "storeUpdate policy stored (req_body (updateClaim claimId payload)) ''claim_number''
           = stored ''claim_number''
       \<and> ((policy = KeepStored \<or> \<not> changesImmutable stored (req_body (updateClaim claimId payload)))
            \<and> key \<notin> set immutableFields \<and> key \<noteq> ''status'' \<and> payload key \<noteq> JUndefined
          \<longrightarrow> storeUpdate policy stored (req_body (updateClaim claimId payload)) key = payload key)"
proof -
  have body: "req_body (updateClaim claimId payload) = payload"
    by (simp add: updateClaim_def)
  have written: "storeUpdate policy stored payload key = payload key"
    if "policy = KeepStored \<or> \<not> changesImmutable stored payload"
      and "key \<notin> set immutableFields" and "key \<noteq> ''status''" and "payload key \<noteq> JUndefined"
  proof -
    from that(1) have "storeUpdate policy stored payload = writeFields stored payload"
      by (cases policy) (auto simp: storeUpdate_def)
    with that(2-4) show ?thesis by (simp add: writeFields_present)
  qed
  show ?thesis
    unfolding body using storeUpdate_claim_number [of policy stored payload] written by blast
qed

theorem update_keeps_claim_number_witness:
  "storeUpdate KeepStored
     (emptyObject(''id'' := JStr ''123e4567-e89b-42d3-a456-426614174000'',
        ''claim_number'' := JStr ''CLM000001'', ''policy_number'' := JStr ''POL-12345''))
     (req_body (updateClaim ''123e4567-e89b-42d3-a456-426614174000''
        (emptyObject(''id'' := JStr ''123e4567-e89b-42d3-a456-426614174000'',
           ''claim_number'' := JStr ''CLM999999'', ''policy_number'' := JStr ''POL-67890''))))
     ''claim_number'' = JStr ''CLM000001''
   \<and> storeUpdate KeepStored
     (emptyObject(''id'' := JStr ''123e4567-e89b-42d3-a456-426614174000'',
        ''claim_number'' := JStr ''CLM000001'', ''policy_number'' := JStr ''POL-12345''))
     (req_body (updateClaim ''123e4567-e89b-42d3-a456-426614174000''
        (emptyObject(''id'' := JStr ''123e4567-e89b-42d3-a456-426614174000'',
           ''claim_number'' := JStr ''CLM999999'', ''policy_number'' := JStr ''POL-67890''))))
     ''policy_number'' = JStr ''POL-67890''
   \<and> storeUpdate RefuseUpdate
     (emptyObject(''id'' := JStr ''123e4567-e89b-42d3-a456-426614174000'',
        ''claim_number'' := JStr ''CLM000001'', ''policy_number'' := JStr ''POL-12345''))
     (req_body (updateClaim ''123e4567-e89b-42d3-a456-426614174000''
        (emptyObject(''id'' := JStr ''123e4567-e89b-42d3-a456-426614174000'',
           ''claim_number'' := JStr ''CLM999999'', ''policy_number'' := JStr ''POL-67890''))))
     ''claim_number'' = JStr ''CLM000001''"
proof -
  let ?stored = "emptyObject(''id'' := JStr ''123e4567-e89b-42d3-a456-426614174000'',
        ''claim_number'' := JStr ''CLM000001'', ''policy_number'' := JStr ''POL-12345'')"
  let ?payload = "emptyObject(''id'' := JStr ''123e4567-e89b-42d3-a456-426614174000'',
           ''claim_number'' := JStr ''CLM999999'', ''policy_number'' := JStr ''POL-67890'')"
  have valid: "updateClaimSchema ((=) ''123e4567-e89b-42d3-a456-426614174000'') Map.empty
      1762041600000 ?payload = []"
    by code_simp
  have stored: "?stored ''claim_number'' = JStr ''CLM000001''" by simp
  have present: "?payload ''policy_number'' = JStr ''POL-67890''"
    "''policy_number'' \<notin> set immutableFields" "''policy_number'' \<noteq> ''status''"
    by (simp_all add: immutableFields_def)
  show ?thesis
    using update_keeps_claim_number [OF valid, of KeepStored ?stored _ "''policy_number''"]
      update_keeps_claim_number [OF valid, of RefuseUpdate ?stored _ "''policy_number''"]
      stored present
    by simp
qed

section \<open>Properties of the utility functions\<close>

lemma decimal_digit: 
  assumes "k < 10"
  shows "digits36 ! k \<in> set ''0123456789''"
proof -
  from assms have "k = 0 \<or> k = 1 \<or> k = 2 \<or> k = 3 \<or> k = 4 \<or> k = 5 \<or> k = 6 \<or> k = 7 \<or> k = 8 \<or> k = 9"
    by arith
  then show ?thesis
    by (elim disjE) (simp_all add: digits36_def)
qed

lemma digitsToString_digits:
  "0 \<le> n \<Longrightarrow> set (digitsToString n) \<subseteq> set ''0123456789''"
proof (induction n rule: digitsToString.induct)
  case (1 n)
  show ?case
  proof (cases "n < 10")
    case True
    with "1.prems" have "nat n < 10" by simp
    then have "digits36 ! nat n \<in> set ''0123456789''" by (rule decimal_digit)
    with True show ?thesis by (subst digitsToString.simps) simp
  next
    case False
    then have "0 \<le> n div 10" by simp
    with "1.IH" False have ih: "set (digitsToString (n div 10)) \<subseteq> set ''0123456789''" by simp
    have "nat (n mod 10) < 10" by simp
    then have "digits36 ! nat (n mod 10) \<in> set ''0123456789''" by (rule decimal_digit)
    with ih False show ?thesis by (subst digitsToString.simps) simp
  qed
qed

lemma digitsToString_length:
  "10 ^ k \<le> n \<Longrightarrow> k < length (digitsToString n)"
proof (induction n arbitrary: k rule: digitsToString.induct)
  case (1 n)
  show ?case
  proof (cases "n < 10")
    case True
    have "k = 0"
    proof (rule ccontr)
      assume "k \<noteq> 0"
      then obtain j where "k = Suc j" by (cases k) simp_all
      then have "(10::int) \<le> 10 ^ k" by simp
      with "1.prems" True show False by simp
    qed
    with True show ?thesis by (subst digitsToString.simps) simp
  next
    case False
    show ?thesis
    proof (cases k)
      case 0
      with False show ?thesis by (subst digitsToString.simps) simp
    next
      case (Suc j)
      with "1.prems" have "10 * 10 ^ j \<le> n" by simp
      then have "10 ^ j \<le> n div 10" by simp
      with "1.IH" False have "j < length (digitsToString (n div 10))" by simp
      with False Suc show ?thesis by (subst digitsToString.simps) simp
    qed
  qed
qed

lemma timestamp_part:
  assumes "100000 \<le> \<bar>dateNow\<bar>"
  shows "length (sliceFromEnd 6 (numberToString dateNow)) = 6
       \<and> set (sliceFromEnd 6 (numberToString dateNow)) \<subseteq> set ''0123456789''"
proof (cases "dateNow < 0")
  case True
  let ?ds = "digitsToString (- dateNow)"
  from assms True have "10 ^ 5 \<le> - dateNow" by simp
  then have len: "5 < length ?ds" by (rule digitsToString_length)
  from True have dig: "set ?ds \<subseteq> set ''0123456789''" by (intro digitsToString_digits) simp
  from len have "length ?ds - 5 = Suc (length ?ds - 6)" by simp
  then have "sliceFromEnd 6 (numberToString dateNow) = drop (length ?ds - 6) ?ds"
    using True by (simp add: sliceFromEnd_def numberToString_def)
  moreover have "set (drop (length ?ds - 6) ?ds) \<subseteq> set ?ds" by (rule set_drop_subset)
  ultimately show ?thesis using len dig by auto
next
  case False
  let ?ds = "digitsToString dateNow"
  from assms False have "10 ^ 5 \<le> dateNow" by simp
  then have len: "5 < length ?ds" by (rule digitsToString_length)
  from False have dig: "set ?ds \<subseteq> set ''0123456789''" by (intro digitsToString_digits) simp
  have "sliceFromEnd 6 (numberToString dateNow) = drop (length ?ds - 6) ?ds"
    using False by (simp add: sliceFromEnd_def numberToString_def)
  moreover have "set (drop (length ?ds - 6) ?ds) \<subseteq> set ?ds" by (rule set_drop_subset)
  ultimately show ?thesis using len dig by auto
qed

lemma toUpperCase_digits36: "list_all (\<lambda>c. toUpperCaseChar c \<in> set upperAlnum) digits36"
  by code_simp

lemma random_part:
  "set (toUpperCase (substr 2 4 (randomToString36 fraction))) \<subseteq> set upperAlnum"
proof (cases "fraction = []")
  case True
  then show ?thesis by (simp add: randomToString36_def substr_def toUpperCase_def)
next
  case False
  have d: "digits36 ! (d mod 36) \<in> set digits36" for d
    by (rule nth_mem) (simp add: digits36_def)
  have "substr 2 4 (randomToString36 fraction) = take 4 (map (\<lambda>d. digits36 ! (d mod 36)) fraction)"
    using False by (simp add: randomToString36_def substr_def)
  moreover have "set (take 4 (map (\<lambda>d. digits36 ! (d mod 36)) fraction))
      \<subseteq> set (map (\<lambda>d. digits36 ! (d mod 36)) fraction)"
    by (rule set_take_subset)
  moreover have "set (map (\<lambda>d. digits36 ! (d mod 36)) fraction) \<subseteq> set digits36"
    using d by auto
  ultimately have "set (substr 2 4 (randomToString36 fraction)) \<subseteq> set digits36"
    by (simp only: subset_trans)
  then show ?thesis
    using toUpperCase_digits36 by (auto simp: toUpperCase_def list_all_iff)
qed

text \<open>
  C9 (amended). For every clock value of at least six decimal digits
  (\<open>\<bar>dateNow\<bar> \<ge> 100000\<close>) and every outcome of the random generator, also one whose
  suffix is shorter than four characters or empty, the generated claim number satisfies
  \<open>isValidClaimNumber\<close>. A clock value of fewer than six digits leaves the six characters
  to the random suffix, which has at most four.
\<close>

theorem generateClaimNumber_valid:
  assumes "100000 \<le> \<bar>dateNow\<bar>"
  shows "isValidClaimNumber (generateClaimNumber dateNow fraction)"
proof -
  let ?ts = "sliceFromEnd 6 (numberToString dateNow)"
  let ?rnd = "toUpperCase (substr 2 4 (randomToString36 fraction))"
  from timestamp_part [OF assms] have len: "length ?ts = 6" and dig: "set ?ts \<subseteq> set ''0123456789''"
    by simp_all
  have "set ''0123456789'' \<subseteq> set upperAlnum" by (simp add: upperAlnum_def)
  with dig have ts: "set ?ts \<subseteq> set upperAlnum" by blast
  have "generateClaimNumber dateNow fraction = ''CLM'' @ ?ts @ ?rnd"
    by (simp add: generateClaimNumber_def)
  then show ?thesis
    using len ts random_part [of fraction]
    by (auto simp: isValidClaimNumber_def claimNumberRegex_def list_all_iff)
qed

theorem generateClaimNumber_valid_witness:
  "isValidClaimNumber (generateClaimNumber 1700000123456 [])
   \<and> generateClaimNumber 1700000123456 [] = ''CLM123456''"
proof -
  have "generateClaimNumber 1700000123456 [] = ''CLM123456''" by code_simp
  then show ?thesis using generateClaimNumber_valid [of 1700000123456 "[]"] by simp
qed

theorem generateClaimNumber_valid_counterexample:
  "generateClaimNumber 5 [18] = ''CLM5I'' \<and> \<not> isValidClaimNumber (generateClaimNumber 5 [18])"
  by code_simp

lemma rounded_product:
  assumes "times100 confidence = Finite product"
  shows "formatConfidence times100 largeForm (Finite confidence) =
           integerToString largeForm (Finite \<lfloor>product + 1 / 2\<rfloor>) @ ''%''"
  using assms by (simp add: formatConfidence_def)

text \<open>
  C7 (amended). The confidence display applies no clamp. When the product with 100 is
  finite and within the rounding error of IEEE 754 (a relative error of at most
  \<open>2 ^ - 53\<close>), \<open>formatConfidence\<close> prints the rounded product followed by \<open>%\<close>; for a
  confidence within \<open>[0, 1]\<close> that percentage lies between 0 and 100, for a confidence from
  1.01 to \<open>10 ^ 13\<close> it is above 100, and for a confidence from \<open>- 10 ^ 13\<close> to -0.01 it is
  negative. \<open>NaN\<close> and the infinities print as \<open>NaN%\<close>, \<open>Infinity%\<close> and \<open>-Infinity%\<close>.
  In the examples that follow the product is given at the one argument used, where it is
  exact: 0.5, 1.5 and -0.5 times 100 are the doubles 50, 150 and -50.
\<close>

theorem formatConfidence_range:
  assumes "times100 confidence = Finite product"
    and "\<bar>product - confidence * 100\<bar> \<le> \<bar>confidence * 100\<bar> / 2 ^ 53"
  shows "(0 \<le> confidence \<and> confidence \<le> 1 \<longrightarrow>
            formatConfidence times100 largeForm (Finite confidence)
              = numberToString \<lfloor>product + 1 / 2\<rfloor> @ ''%''
            \<and> 0 \<le> \<lfloor>product + 1 / 2\<rfloor> \<and> \<lfloor>product + 1 / 2\<rfloor> \<le> 100)
       \<and> (101 / 100 \<le> confidence \<and> confidence \<le> 10 ^ 13 \<longrightarrow>
            formatConfidence times100 largeForm (Finite confidence)
              = numberToString \<lfloor>product + 1 / 2\<rfloor> @ ''%''
            \<and> 100 < \<lfloor>product + 1 / 2\<rfloor>)
       \<and> (- (10 ^ 13) \<le> confidence \<and> confidence \<le> - 1 / 100 \<longrightarrow>
            formatConfidence times100 largeForm (Finite confidence)
              = numberToString \<lfloor>product + 1 / 2\<rfloor> @ ''%''
            \<and> \<lfloor>product + 1 / 2\<rfloor> < 0)
       \<and> formatConfidence times100 largeForm NaN = ''NaN%''
       \<and> formatConfidence times100 largeForm PosInfinity = ''Infinity%''
       \<and> formatConfidence times100 largeForm NegInfinity = ''-Infinity%''"
proof -
  let ?n = "\<lfloor>product + 1 / 2\<rfloor>"
  have pow: "(2::rat) ^ 53 = 9007199254740992" "(2::int) ^ 53 = 9007199254740992"
    "(10::rat) ^ 13 = 10000000000000"
    by simp_all
  have decimal: "formatConfidence times100 largeForm (Finite confidence) = numberToString ?n @ ''%''"
    if "\<bar>?n\<bar> \<le> 2 ^ 53"
    using that rounded_product [of times100 confidence product largeForm] assms(1) by simp
  from assms(2) have lower: "confidence * 100 - \<bar>confidence * 100\<bar> / 9007199254740992 \<le> product"
    and upper: "product \<le> confidence * 100 + \<bar>confidence * 100\<bar> / 9007199254740992"
    by (simp_all only: pow abs_diff_le_iff)
  have inside: "0 \<le> ?n \<and> ?n \<le> 100" if "0 \<le> confidence" "confidence \<le> 1"
  proof -
    from that have "\<bar>confidence * 100\<bar> = confidence * 100" by simp
    with lower upper that have "0 \<le> product" "product < 100 + 1 / 2" by linarith+
    then have "rat_of_int 0 \<le> product + 1 / 2" "product + 1 / 2 < rat_of_int 101" by simp_all
    then have "0 \<le> ?n" "?n < 101" by (simp_all only: le_floor_iff floor_less_iff)
    then show ?thesis by simp
  qed
  have above: "100 < ?n \<and> \<bar>?n\<bar> \<le> 2 ^ 53" if "101 / 100 \<le> confidence" "confidence \<le> 10 ^ 13"
  proof -
    from that have "\<bar>confidence * 100\<bar> = confidence * 100" by simp
    with lower upper that have "100 + 1 / 2 \<le> product" "product < 9007199254740992"
      unfolding pow by linarith+
    then have "rat_of_int 101 \<le> product + 1 / 2" "product + 1 / 2 < rat_of_int 9007199254740993"
      by simp_all
    then have "101 \<le> ?n" "?n < 9007199254740993" by (simp_all only: le_floor_iff floor_less_iff)
    then show ?thesis unfolding pow by linarith
  qed
  have below: "?n < 0 \<and> \<bar>?n\<bar> \<le> 2 ^ 53" if "- (10 ^ 13) \<le> confidence" "confidence \<le> - 1 / 100"
  proof -
    from that have "\<bar>confidence * 100\<bar> = - (confidence * 100)" by simp
    with lower upper that have "product < - 1 / 2" "- 9007199254740992 \<le> product"
      unfolding pow by linarith+
    then have "product + 1 / 2 < rat_of_int 0" "rat_of_int (- 9007199254740992) \<le> product + 1 / 2"
      by simp_all
    then have "?n < 0" "- 9007199254740992 \<le> ?n" by (simp_all only: le_floor_iff floor_less_iff)
    then show ?thesis unfolding pow by linarith
  qed
  have special: "formatConfidence times100 largeForm NaN = ''NaN%''"
    "formatConfidence times100 largeForm PosInfinity = ''Infinity%''"
    "formatConfidence times100 largeForm NegInfinity = ''-Infinity%''"
    by (simp_all add: formatConfidence_def)
  have small: "\<bar>?n\<bar> \<le> 2 ^ 53" if "0 \<le> ?n \<and> ?n \<le> 100"
    using that unfolding pow by linarith
  show ?thesis
    using inside above below special decimal small by blast
qed

theorem formatConfidence_range_witness:
  "formatConfidence (\<lambda>x. if x = 1 / 2 then Finite 50 else NaN) (\<lambda>n. []) (Finite (1 / 2)) = ''50%''"
proof -
  let ?times100 = "\<lambda>x::rat. if x = 1 / 2 then Finite (50::rat) else NaN"
  have product: "?times100 (1 / 2) = Finite 50" by simp
  have error: "\<bar>50 - (1 / 2 :: rat) * 100\<bar> \<le> \<bar>(1 / 2 :: rat) * 100\<bar> / 2 ^ 53" by simp
  have floor: "\<lfloor>(50 :: rat) + 1 / 2\<rfloor> = 50" by code_simp
  have digits: "numberToString 50 @ ''%'' = ''50%''" by code_simp
  show ?thesis
    using formatConfidence_range [of ?times100 "1 / 2" 50 "\<lambda>n. []"] product error floor digits
    by simp
qed

theorem formatConfidence_range_counterexample:
  "\<not> (3 / 2 :: rat) \<le> 1
   \<and> formatConfidence (\<lambda>x. if x = 3 / 2 then Finite 150 else NaN) (\<lambda>n. []) (Finite (3 / 2)) = ''150%''
   \<and> getConfidenceColor (3 / 2) = ''text-green-600''
   \<and> \<not> (0 :: rat) \<le> - 1 / 2
   \<and> formatConfidence (\<lambda>x. if x = - 1 / 2 then Finite (- 50) else NaN) (\<lambda>n. []) (Finite (- 1 / 2)) = ''-50%''"
  by code_simp

section \<open>Properties of the retry loop\<close>

lemma invocations_append [simp]: "invocations (tr @ tr') = invocations tr + invocations tr'"
  by (simp add: invocations_def)

lemma invocations_simps [simp]:
  "invocations [] = 0"
  "invocations (Invoke # tr) = Suc (invocations tr)"
  "invocations (Wait d # tr) = invocations tr"
  by (simp_all add: invocations_def)

lemma waits_append [simp]: "waits (tr @ tr') = waits tr @ waits tr'"
  by (induction tr rule: waits.induct) simp_all

lemma retryLoop_exhaust:
  assumes "\<forall>k. invocations tr \<le> k \<and> k < invocations tr + nat (maxRetries + 1 - a)
             \<longrightarrow> requestFn k = Rejected (errs k) \<and> \<not> isClientError (errs k)"
  shows "retryLoop requestFn maxRetries delay a lastError tr =
     (Inl (if a \<le> maxRetries then Some (errs (invocations tr + nat (maxRetries - a))) else lastError),
      tr @ concat (map (\<lambda>k. if k < maxRetries then [Invoke, Wait (delay * 2 ^ nat (k - 1))] else [Invoke])
                    [a..maxRetries]))"
  using assms
proof (induction requestFn maxRetries delay a lastError tr rule: retryLoop.induct)
  case (1 requestFn maxRetries delay attempt lastError tr)
  show ?case
  proof (cases "attempt \<le> maxRetries")
    case False
    then show ?thesis by (subst retryLoop.simps) simp
  next
    case le: True
    from "1.prems" le have here: "requestFn (invocations tr) = Rejected (errs (invocations tr))"
      "\<not> isClientError (errs (invocations tr))"
      by auto
    have up: "[attempt..maxRetries] = attempt # [attempt + 1..maxRetries]"
      using le by (simp add: upto_rec1)
    show ?thesis
    proof (cases "attempt < maxRetries")
      case lt: True
      let ?tr' = "tr @ [Invoke, Wait (delay * 2 ^ nat (attempt - 1))]"
      have pre: "\<forall>k. invocations ?tr' \<le> k \<and> k < invocations ?tr' + nat (maxRetries + 1 - (attempt + 1))
             \<longrightarrow> requestFn k = Rejected (errs k) \<and> \<not> isClientError (errs k)"
        using "1.prems" lt by auto
      have ih: "retryLoop requestFn maxRetries delay (attempt + 1) (Some (errs (invocations tr))) ?tr' =
         (Inl (if attempt + 1 \<le> maxRetries then Some (errs (invocations ?tr' + nat (maxRetries - (attempt + 1))))
               else Some (errs (invocations tr))),
          ?tr' @ concat (map (\<lambda>k. if k < maxRetries then [Invoke, Wait (delay * 2 ^ nat (k - 1))] else [Invoke])
                    [attempt + 1..maxRetries]))"
        using "1.IH"(1)[OF le here(1) here(2) lt pre] .
      have idx: "nat (maxRetries - attempt) = Suc (nat (maxRetries - (attempt + 1)))"
        using lt by simp
      have "retryLoop requestFn maxRetries delay attempt lastError tr =
            retryLoop requestFn maxRetries delay (attempt + 1) (Some (errs (invocations tr))) ?tr'"
        by (subst retryLoop.simps) (simp add: le lt here)
      also note ih
      finally show ?thesis
        using le lt up by (simp add: idx)
    next
      case nlt: False
      with le have eq: "attempt = maxRetries" by simp
      let ?tr' = "tr @ [Invoke]"
      have pre: "\<forall>k. invocations ?tr' \<le> k \<and> k < invocations ?tr' + nat (maxRetries + 1 - (attempt + 1))
             \<longrightarrow> requestFn k = Rejected (errs k) \<and> \<not> isClientError (errs k)"
        using eq by auto
      have ih: "retryLoop requestFn maxRetries delay (attempt + 1) (Some (errs (invocations tr))) ?tr' =
         (Inl (if attempt + 1 \<le> maxRetries then Some (errs (invocations ?tr' + nat (maxRetries - (attempt + 1))))
               else Some (errs (invocations tr))),
          ?tr' @ concat (map (\<lambda>k. if k < maxRetries then [Invoke, Wait (delay * 2 ^ nat (k - 1))] else [Invoke])
                    [attempt + 1..maxRetries]))"
        using "1.IH"(2)[OF le here(1) here(2) nlt pre] .
      have "retryLoop requestFn maxRetries delay attempt lastError tr =
            retryLoop requestFn maxRetries delay (attempt + 1) (Some (errs (invocations tr))) ?tr'"
        by (subst retryLoop.simps) (simp add: le nlt here)
      also note ih
      finally show ?thesis
        using up eq by simp
    qed
  qed
qed

text \<open>
  C5. When every attempt fails with a 5xx response (status at least 500), \<open>retryRequest\<close>
  invokes the request function exactly \<open>maxRetries\<close> times; attempt \<open>k\<close> is followed,
  unless it is the last one, by a sleep of \<open>delay * 2 ^ (k - 1)\<close>; and the error of the last
  attempt is thrown to the caller.
\<close>

theorem retryRequest_transient_exhausts:
  assumes "0 \<le> maxRetries"
    and "\<forall>k. k < nat maxRetries \<longrightarrow>
           requestFn k = Rejected (AxiosError (Some (code k))) \<and> 500 \<le> code k"
  shows "invocations (snd (retryRequest requestFn maxRetries delay)) = nat maxRetries
       \<and> snd (retryRequest requestFn maxRetries delay) =
           concat (map (\<lambda>k. if k < maxRetries then [Invoke, Wait (delay * 2 ^ nat (k - 1))]
                             else [Invoke]) [1..maxRetries])
       \<and> waits (snd (retryRequest requestFn maxRetries delay)) =
           map (\<lambda>k. delay * 2 ^ nat (k - 1)) [1..maxRetries - 1]
       \<and> (1 \<le> maxRetries \<longrightarrow>
            fst (retryRequest requestFn maxRetries delay) =
              Inl (Some (AxiosError (Some (code (nat maxRetries - 1))))))"
proof -
  let ?errs = "\<lambda>k. AxiosError (Some (code k))"
  have pre: "\<forall>k. invocations [] \<le> k \<and> k < invocations [] + nat (maxRetries + 1 - 1)
       \<longrightarrow> requestFn k = Rejected (?errs k) \<and> \<not> isClientError (?errs k)"
    using assms(2) by auto
  have run: "retryRequest requestFn maxRetries delay =
     (Inl (if 1 \<le> maxRetries then Some (?errs (nat (maxRetries - 1))) else None),
      concat (map (\<lambda>k. if k < maxRetries then [Invoke, Wait (delay * 2 ^ nat (k - 1))]
                        else [Invoke]) [1..maxRetries]))"
    unfolding retryRequest_def using retryLoop_exhaust [OF pre, of delay None] by simp
  have count: "invocations (concat (map (\<lambda>k. if k < m then [Invoke, Wait (d * 2 ^ nat (k - 1))]
                        else [Invoke]) [a..m])) = nat (m + 1 - a)" for a m d
  proof (induction "nat (m + 1 - a)" arbitrary: a)
    case 0
    then show ?case by simp
  next
    case (Suc n)
    then have "a \<le> m" "n = nat (m + 1 - (a + 1))" by simp_all
    then show ?case using Suc.hyps(1)[of "a + 1"] Suc.hyps(2) by (simp add: upto_rec1)
  qed
  have sleeps: "waits (concat (map (\<lambda>k. if k < m then [Invoke, Wait (d * 2 ^ nat (k - 1))]
                        else [Invoke]) [a..m])) = map (\<lambda>k. d * 2 ^ nat (k - 1)) [a..m - 1]" for a m d
  proof (induction "nat (m + 1 - a)" arbitrary: a)
    case 0
    then show ?case by simp
  next
    case (Suc n)
    then have le: "a \<le> m" and n: "n = nat (m + 1 - (a + 1))" by simp_all
    show ?case
    proof (cases "a < m")
      case True
      then show ?thesis using Suc.hyps(1)[OF n] le by (simp add: upto_rec1)
    next
      case False
      with le have "a = m" by simp
      then show ?thesis by simp
    qed
  qed
  have last: "nat (maxRetries - 1) = nat maxRetries - 1" by simp
  show ?thesis
    using assms(1) by (simp add: run count sleeps last)
qed

theorem retryRequest_transient_exhausts_witness:
  "retryRequest (\<lambda>k. Rejected (AxiosError (Some 503)) :: unit outcome) 3 1000 =
     (Inl (Some (AxiosError (Some 503))), [Invoke, Wait 1000, Invoke, Wait 2000, Invoke])
   \<and> invocations (snd (retryRequest (\<lambda>k. Rejected (AxiosError (Some 503)) :: unit outcome) 3 1000)) = 3
   \<and> waits (snd (retryRequest (\<lambda>k. Rejected (AxiosError (Some 503)) :: unit outcome) 3 1000)) = [1000, 2000]"
proof -
  let ?f = "\<lambda>k::nat. Rejected (AxiosError (Some 503)) :: unit outcome"
  have h1: "(0::int) \<le> 3" by simp
  have h2: "\<forall>k. k < nat 3 \<longrightarrow> ?f k = Rejected (AxiosError (Some ((\<lambda>k. 503) k))) \<and> 500 \<le> (\<lambda>k. 503::int) k"
    by simp
  have up: "[1..3::int] = [1, 2, 3]" "[1..2::int] = [1, 2]"
    by (simp_all add: upto_rec1)
  from retryRequest_transient_exhausts [OF h1 h2, of 1000]
  show ?thesis by (cases "retryRequest ?f 3 1000") (simp add: up)
qed

text \<open>
  C6. When the first call of the request function fails with a 4xx response, the request
  is never retried, whatever the maximum attempt count: the function is invoked at most
  once and the loop never sleeps. Whenever the loop runs at all (\<open>maxRetries \<ge> 1\<close>) the
  function is invoked exactly once and that error is thrown at once.
\<close>

theorem retryRequest_client_error_not_retried:
  assumes "requestFn 0 = Rejected (AxiosError (Some code))"
    and "400 \<le> code" and "code \<le> 499"
  shows "invocations (snd (retryRequest requestFn maxRetries delay)) \<le> 1
       \<and> waits (snd (retryRequest requestFn maxRetries delay)) = []
       \<and> (1 \<le> maxRetries \<longrightarrow>
            retryRequest requestFn maxRetries delay =
              (Inl (Some (AxiosError (Some code))), [Invoke]))"
proof (cases "1 \<le> maxRetries")
  case True
  have "retryRequest requestFn maxRetries delay = (Inl (Some (AxiosError (Some code))), [Invoke])"
    unfolding retryRequest_def using assms True by (subst retryLoop.simps) simp
  then show ?thesis by simp
next
  case False
  have "retryRequest requestFn maxRetries delay = (Inl None, [])"
    unfolding retryRequest_def using False by (subst retryLoop.simps) simp
  with False show ?thesis by simp
qed

theorem retryRequest_client_error_not_retried_witness:
  "retryRequest (\<lambda>k. if k = 0 then Rejected (AxiosError (Some 404)) else Resolved ()) 5 1000 =
     (Inl (Some (AxiosError (Some 404))), [Invoke])"
  using retryRequest_client_error_not_retried
    [of "\<lambda>k. if k = 0 then Rejected (AxiosError (Some 404)) else Resolved ()" 404 5 1000]
  by simp

section \<open>Properties of the Lifecycle Engine\<close>

text \<open>
  C1. A claim in \<open>DQ_VALIDATED\<close> is routed to \<open>HUMAN_REVIEW\<close> if and only if its overall
  confidence is strictly below the review threshold or a mandatory-review rule fires, and
  to \<open>CONSENT_VERIFIED\<close> otherwise; the routing succeeds and stores the new status. The
  green band of \<open>getConfidenceColor\<close> starts at the default threshold: a confidence is shown
  green exactly when it is not below 0.80.
\<close>

theorem DQ_VALIDATED_routing:
  assumes "status claim = DQ_VALIDATED"
  shows "(status (snd (Advance review_threshold claim ConfidenceRouting)) = HUMAN_REVIEW \<longleftrightarrow>
            overall_confidence claim < review_threshold \<or> mandatory_review claim)
       \<and> (status (snd (Advance review_threshold claim ConfidenceRouting)) = CONSENT_VERIFIED \<longleftrightarrow>
            \<not> (overall_confidence claim < review_threshold \<or> mandatory_review claim))
       \<and> (status (snd (Advance review_threshold claim ConfidenceRouting)) = HUMAN_REVIEW
            \<or> status (snd (Advance review_threshold claim ConfidenceRouting)) = CONSENT_VERIFIED)
       \<and> fst (Advance review_threshold claim ConfidenceRouting)
            = Inr (snd (Advance review_threshold claim ConfidenceRouting))
       \<and> (getConfidenceColor (overall_confidence claim) = ''text-green-600'' \<longleftrightarrow>
            \<not> overall_confidence claim < default_review_threshold)"
  using assms
  by (simp add: Advance_def edge_def terminal_def requiresReview_def getConfidenceColor_def
        default_review_threshold_def)

theorem DQ_VALIDATED_routing_witness:
  "status (snd (Advance default_review_threshold
      \<lparr>status = DQ_VALIDATED, overall_confidence = 79 / 100, mandatory_review = False\<rparr>
      ConfidenceRouting)) = HUMAN_REVIEW
   \<and> status (snd (Advance default_review_threshold
      \<lparr>status = DQ_VALIDATED, overall_confidence = 80 / 100, mandatory_review = False\<rparr>
      ConfidenceRouting)) = CONSENT_VERIFIED
   \<and> status (snd (Advance default_review_threshold
      \<lparr>status = DQ_VALIDATED, overall_confidence = 95 / 100, mandatory_review = True\<rparr>
      ConfidenceRouting)) = HUMAN_REVIEW"
  using DQ_VALIDATED_routing
      [of "\<lparr>status = DQ_VALIDATED, overall_confidence = 79 / 100, mandatory_review = False\<rparr>"
          default_review_threshold]
    DQ_VALIDATED_routing
      [of "\<lparr>status = DQ_VALIDATED, overall_confidence = 80 / 100, mandatory_review = False\<rparr>"
          default_review_threshold]
    DQ_VALIDATED_routing
      [of "\<lparr>status = DQ_VALIDATED, overall_confidence = 95 / 100, mandatory_review = True\<rparr>"
          default_review_threshold]
  by (simp add: default_review_threshold_def)

text \<open>
  C2. \<open>SETTLED\<close> and \<open>REJECTED\<close> are terminal: every event applied to a claim in one of
  them fails with \<open>InvalidTransition\<close>, carrying the state and the event, and the stored
  claim, its status included, is unchanged.
\<close>

theorem terminal_states_accept_no_event:
  assumes "status claim = SETTLED \<or> status claim = REJECTED"
  shows "Advance review_threshold claim ev = (Inl (InvalidTransition (status claim) ev), claim)
       \<and> status (snd (Advance review_threshold claim ev)) = status claim"
  using assms by (auto simp: Advance_def terminal_def)

theorem terminal_states_accept_no_event_witness:
  "Advance default_review_threshold
     \<lparr>status = SETTLED, overall_confidence = 95 / 100, mandatory_review = False\<rparr> RejectionRequested
   = (Inl (InvalidTransition SETTLED RejectionRequested),
      \<lparr>status = SETTLED, overall_confidence = 95 / 100, mandatory_review = False\<rparr>)
   \<and> Advance default_review_threshold
     \<lparr>status = REJECTED, overall_confidence = 50 / 100, mandatory_review = False\<rparr> ReviewerApproved
   = (Inl (InvalidTransition REJECTED ReviewerApproved),
      \<lparr>status = REJECTED, overall_confidence = 50 / 100, mandatory_review = False\<rparr>)"
  using terminal_states_accept_no_event
      [of "\<lparr>status = SETTLED, overall_confidence = 95 / 100, mandatory_review = False\<rparr>"
          default_review_threshold RejectionRequested]
    terminal_states_accept_no_event
      [of "\<lparr>status = REJECTED, overall_confidence = 50 / 100, mandatory_review = False\<rparr>"
          default_review_threshold ReviewerApproved]
  by simp

end
